theory Spec2Isabelle
  imports Main
begin

section \<open>Strings\<close>

text \<open>
  A source string is modelled as a \<open>char list\<close>, one \<open>char\<close> per UTF-16 code unit, for
  texts whose code units are all below 256 (the Latin-1 range). \<open>isSpace\<close> is the set
  that \<open>String.prototype.trim\<close> and the regular expression class \<open>\s\<close> share in that
  range: tab, line feed, vertical tab, form feed, carriage return, space and the
  no-break space.
\<close>

definition isSpace :: "char \<Rightarrow> bool" where
  "isSpace c = ((of_char c :: nat) = 9 \<or> (of_char c :: nat) = 10 \<or> (of_char c :: nat) = 11
     \<or> (of_char c :: nat) = 12 \<or> (of_char c :: nat) = 13 \<or> (of_char c :: nat) = 32
     \<or> (of_char c :: nat) = 160)"

definition trimStart :: "string \<Rightarrow> string" where
  "trimStart s = dropWhile isSpace s"

definition trimEnd :: "string \<Rightarrow> string" where
  "trimEnd s = rev (dropWhile isSpace (rev s))"

definition trim :: "string \<Rightarrow> string" where
  "trim s = trimEnd (trimStart s)"

text \<open>
  \<open>toLowerCase\<close> in the Latin-1 range: the letters A to Z and the accented capitals
  U+00C0 to U+00DE (the multiplication sign U+00D7 apart) move up by 32.
\<close>

definition toLowerChar :: "char \<Rightarrow> char" where
  "toLowerChar c =
     (let n = (of_char c :: nat) in
      if (65 \<le> n \<and> n \<le> 90) \<or> (192 \<le> n \<and> n \<le> 222 \<and> n \<noteq> 215)
      then char_of (n + 32) else c)"

definition toLowerCase :: "string \<Rightarrow> string" where
  "toLowerCase s = map toLowerChar s"

text \<open>The normal form of the specification: trim, then lower case.\<close>

definition normalize :: "string \<Rightarrow> string" where
  "normalize s = toLowerCase (trim s)"

section \<open>Response validator (src/app/page.tsx)\<close>

definition isUniqueResponse :: "string \<Rightarrow> string list \<Rightarrow> bool" where
  "isUniqueResponse response allResponses =
     (let trimmed = toLowerCase (trim response) in
      if length trimmed = 0 then True
      else
        (let duplicateCount =
               length (filter (\<lambda>r. r = trimmed) (map (\<lambda>r. toLowerCase (trim r)) allResponses))
         in duplicateCount \<le> 1))"

section \<open>Co-Founder Lab: data (src/unnamed/part_002)\<close>

datatype StageId =
    InitialReflection
  | ChoosingDirections
  | CoDesign
  | Variants
  | Selection
  | NextPanel
  | Completed

datatype Role = AI | Student

record Message =
  role :: Role
  content :: string
  timestamp :: nat
  stage :: "StageId option"

record ProposedSolution =
  title :: string
  description :: string
  whoItsFor :: string
  howItWorks :: string
  whyItMatters :: string

text \<open>An optional field of the interface is an \<open>option\<close>: \<open>None\<close> is \<open>undefined\<close>.\<close>

record CoFounderLabData =
  conversationHistory :: "Message list"
  currentStage :: StageId
  selectedSolutions :: "string list"
  proposedSolution :: "ProposedSolution option"
  coDesignPhase :: "string option"
  variantOptions :: "string list option"
  ideaBank :: "string list option"
  lockedVariant :: "string option"

definition EMPTY_LAB_DATA :: CoFounderLabData where
  "EMPTY_LAB_DATA =
     \<lparr> conversationHistory = [],
       currentStage = InitialReflection,
       selectedSolutions = [],
       proposedSolution = None,
       coDesignPhase = Some ''choose-direction'',
       variantOptions = None,
       ideaBank = None,
       lockedVariant = None \<rparr>"

text \<open>The expression \<open>labData.ideaBank || []\<close>: an array is truthy, \<open>undefined\<close> is not.\<close>

definition bankOf :: "CoFounderLabData \<Rightarrow> string list" where
  "bankOf d = (case ideaBank d of None \<Rightarrow> [] | Some b \<Rightarrow> b)"

section \<open>Persistent store (src/firebase.ts)\<close>

type_synonym SolutionWheel = "(string \<times> string) list"

record Decision =
  possible :: "(string \<times> string) list"
  planetImpact :: "(string \<times> string) list"
  impact :: "(string \<times> string) list"
  originality :: "(string \<times> string) list"

record ProblemExploration =
  thinkBig :: "string list option"
  thinkSmall :: "string list option"
  causes :: "string list option"
  motivation :: "string list option"

record FourWs =
  stmtWhat :: string
  stmtWho :: string
  stmtWhere :: string
  stmtWhy :: string

text \<open>The fields of a project document that the code under study reads or writes.\<close>

record Project =
  chosenProblem :: "string option"
  problemExploration :: "ProblemExploration option"
  problemStatement :: "FourWs option"
  solutionWheel :: "SolutionWheel option"
  coFounderLab :: "CoFounderLabData option"
  currentStepId :: "string option"
  decision :: "Decision option"

text \<open>
  The argument \<open>partial\<close> of \<open>updateProject\<close>: \<open>None\<close> is a key that is absent, and
  for \<open>coFounderLab\<close> the value \<open>Some None\<close> is the key set to \<open>null\<close>.
\<close>

record ProjectPatch =
  setCoFounderLab :: "CoFounderLabData option option"
  setCurrentStepId :: "string option"
  setDecision :: "Decision option"

datatype error = UpdateFailed

definition applyPatch :: "ProjectPatch \<Rightarrow> Project \<Rightarrow> Project" where
  "applyPatch partial doc =
     (let d1 = (case setCoFounderLab partial of None \<Rightarrow> doc | Some v \<Rightarrow> doc\<lparr>coFounderLab := v\<rparr>);
          d2 = (case setCurrentStepId partial of None \<Rightarrow> d1 | Some v \<Rightarrow> d1\<lparr>currentStepId := Some v\<rparr>);
          d3 = (case setDecision partial of None \<Rightarrow> d2 | Some v \<Rightarrow> d2\<lparr>decision := Some v\<rparr>)
      in d3)"

text \<open>
  \<open>updateProject\<close> awaits \<open>ensureAuth\<close> and \<open>updateDoc\<close>; either may reject. The flag
  \<open>accepted\<close> is the outcome of that one write: when it is \<open>False\<close> the promise rejects
  and the document is left as it was.
\<close>

definition updateProject :: "bool \<Rightarrow> ProjectPatch \<Rightarrow> Project \<Rightarrow> error + Project" where
  "updateProject accepted partial doc =
     (if accepted then Inr (applyPatch partial doc) else Inl UpdateFailed)"

section \<open>Co-Founder Lab: component state and requests\<close>

record RequestData =
  reqAnswers :: "string list option"
  reqProblemStatement :: "FourWs option"
  reqStage :: "StageId option"
  reqSolutionWheel :: "SolutionWheel option"
  reqConversationHistory :: "Message list option"
  reqIdeaBank :: "string list option"

record AIRequest =
  projectId :: string
  stepId :: string
  zoneId :: "string option"
  action :: string
  data :: "RequestData option"

text \<open>The JSON body that \<open>POST /api/ai\<close> answers with, as the component reads it.\<close>

record ApiResult =
  result_success :: bool
  result_feedback :: "string list option"
  result_generatedItems :: "string list option"

text \<open>
  What \<open>await fetch(...)\<close> followed by \<open>await response.json()\<close> gives: an exception, or
  the decoded body.
\<close>

datatype FetchOutcome = FetchThrows | FetchReturns ApiResult

text \<open>
  The state of one mounted \<open>CoFounderLabStep\<close>: its \<open>useState\<close> cells and \<open>useRef\<close>
  flags, the project id it was given, the project document in the store, and the log of
  the requests it has posted to \<open>/api/ai\<close>.
\<close>

record Lab =
  project :: "Project option"
  labData :: CoFounderLabData
  inputValue :: string
  isAIThinking :: bool
  expandedStages :: "StageId set"
  selectedSolutionsState :: "string list"
  showResetWarning :: bool
  hasInitialized :: bool
  hasAutoStarted :: bool
  actualProjectId :: "string option"
  firestore :: Project
  aiCalls :: "AIRequest list"

text \<open>The test \<open>!actualProjectId\<close>: \<open>undefined\<close> and the empty string are falsy.\<close>

definition truthyProjectId :: "Lab \<Rightarrow> string option" where
  "truthyProjectId w =
     (case actualProjectId w of None \<Rightarrow> None | Some p \<Rightarrow> if p = [] then None else Some p)"

definition saveLabData :: "bool \<Rightarrow> CoFounderLabData \<Rightarrow> Lab \<Rightarrow> Lab" where
  "saveLabData accepted d w =
     (case truthyProjectId w of
        None \<Rightarrow> w
      | Some pid \<Rightarrow>
          (case updateProject accepted
                  \<lparr>setCoFounderLab = Some (Some d), setCurrentStepId = None, setDecision = None\<rparr>
                  (firestore w) of
             Inr doc \<Rightarrow> w\<lparr>firestore := doc\<rparr>
           | Inl e \<Rightarrow> w))"

section \<open>Co-Founder Lab: the idea bank\<close>

text \<open>The Like button of one variant card.\<close>

definition likeVariant :: "bool \<Rightarrow> string \<Rightarrow> Lab \<Rightarrow> Lab" where
  "likeVariant accepted variant w =
     (let inBank = variant \<in> set (bankOf (labData w));
          maxed = (length (bankOf (labData w)) \<ge> 3)
      in if inBank \<or> maxed then w
         else
           (let updated = (labData w)\<lparr>ideaBank := Some (bankOf (labData w) @ [variant])\<rparr>
            in saveLabData accepted updated (w\<lparr>labData := updated\<rparr>)))"

text \<open>The submit handler of the add-your-own form; the text is the input cell.\<close>

definition addOwnIdea :: "bool \<Rightarrow> Lab \<Rightarrow> Lab" where
  "addOwnIdea accepted w =
     (let val = trim (inputValue w)
      in if val = [] then w
         else if length (bankOf (labData w)) \<ge> 3 then w
         else if val \<in> set (bankOf (labData w)) then w
         else
           (let updated = (labData w)\<lparr>ideaBank := Some (bankOf (labData w) @ [val])\<rparr>
            in (saveLabData accepted updated (w\<lparr>labData := updated\<rparr>))\<lparr>inputValue := []\<rparr>))"

text \<open>The Remove button of one banked item.\<close>

definition removeIdea :: "bool \<Rightarrow> string \<Rightarrow> Lab \<Rightarrow> Lab" where
  "removeIdea accepted item w =
     (let updated = filter (\<lambda>v. v \<noteq> item) (bankOf (labData w));
          next = (labData w)\<lparr>ideaBank := Some updated\<rparr>
      in saveLabData accepted next (w\<lparr>labData := next\<rparr>))"

text \<open>
  A learner action on the bank, with the outcome of the write it triggers. \<open>AddOwn s\<close>
  types \<open>s\<close> into the textarea and submits the form.
\<close>

datatype BankOp = Like string | AddOwn string | Remove string

fun applyBankOp :: "Lab \<Rightarrow> BankOp \<times> bool \<Rightarrow> Lab" where
  "applyBankOp w (Like v, accepted) = likeVariant accepted v w"
| "applyBankOp w (AddOwn s, accepted) = addOwnIdea accepted (w\<lparr>inputValue := s\<rparr>)"
| "applyBankOp w (Remove v, accepted) = removeIdea accepted v w"

definition runBankOps :: "(BankOp \<times> bool) list \<Rightarrow> Lab \<Rightarrow> Lab" where
  "runBankOps ops w = foldl applyBankOp w ops"

text \<open>The invariant of the bank: at most three entries, no entry twice.\<close>

definition bankInv :: "Lab \<Rightarrow> bool" where
  "bankInv w = (length (bankOf (labData w)) \<le> 3 \<and> distinct (bankOf (labData w)))"

text \<open>A freshly mounted component for project \<open>p1\<close>, before the first snapshot.\<close>

definition emptyProject :: Project where
  "emptyProject =
     \<lparr> chosenProblem = None, problemExploration = None, problemStatement = None,
       solutionWheel = None, coFounderLab = None, currentStepId = None, decision = None \<rparr>"

definition mountedLab :: Lab where
  "mountedLab =
     \<lparr> project = None,
       labData = EMPTY_LAB_DATA,
       inputValue = [],
       isAIThinking = False,
       expandedStages = {InitialReflection},
       selectedSolutionsState = [],
       showResetWarning = False,
       hasInitialized = False,
       hasAutoStarted = False,
       actualProjectId = Some ''p1'',
       firestore = emptyProject\<lparr>solutionWheel := Some [(''hiTech'', ''a drone'')]\<rparr>,
       aiCalls = [] \<rparr>"

text \<open>
  The same component in the Variants stage: initialised, the reflection already fired,
  three generated variants on screen and nothing banked yet.
\<close>

definition variantsLab :: Lab where
  "variantsLab =
     mountedLab
       \<lparr> project := Some (firestore mountedLab),
         labData := EMPTY_LAB_DATA
           \<lparr> currentStage := Variants,
             selectedSolutions := [''hiTech''],
             coDesignPhase := Some ''concrete-variants'',
             variantOptions := Some [''Solar Lamp'', ''Wind Lamp'', ''Hand Lamp''],
             ideaBank := Some [] \<rparr>,
         hasInitialized := True,
         hasAutoStarted := True \<rparr>"

section \<open>Co-Founder Lab: reasoning-backed handlers\<close>

text \<open>\<open>Array.prototype.join\<close> with a separator.\<close>

fun joinWith :: "string \<Rightarrow> string list \<Rightarrow> string" where
  "joinWith sep [] = []"
| "joinWith sep [x] = x"
| "joinWith sep (x # y # ys) = x @ sep @ joinWith sep (y # ys)"

definition blankLine :: string where
  "blankLine = [CHR 0x0A, CHR 0x0A]"

definition reflectionRequest :: "string \<Rightarrow> SolutionWheel option \<Rightarrow> AIRequest" where
  "reflectionRequest pid wheel =
     \<lparr> projectId = pid, stepId = ''cofounder-lab'', zoneId = None, action = ''generate'',
       data = Some \<lparr> reqAnswers = None, reqProblemStatement = None,
                     reqStage = Some InitialReflection, reqSolutionWheel = wheel,
                     reqConversationHistory = None, reqIdeaBank = None \<rparr> \<rparr>"

text \<open>
  \<open>generateInitialReflection\<close> up to its \<open>await fetch\<close>: the thinking flag is raised
  and the request is posted.
\<close>

definition reflectionBegin :: "string \<Rightarrow> Project \<Rightarrow> Lab \<Rightarrow> Lab" where
  "reflectionBegin pid p w =
     w\<lparr>isAIThinking := True, aiCalls := aiCalls w @ [reflectionRequest pid (solutionWheel p)]\<rparr>"

text \<open>
  \<open>generateInitialReflection\<close> from the point where the request settles. \<open>captured\<close>
  is the \<open>labData\<close> of the render that started the call (the closure), \<open>now\<close> is
  \<open>Date.now()\<close>, \<open>accepted\<close> the outcome of the write in \<open>saveLabData\<close>. The
  \<open>catch\<close> logs, the \<open>finally\<close> lowers the thinking flag.
\<close>

definition reflectionSettle :: "CoFounderLabData \<Rightarrow> FetchOutcome \<Rightarrow> nat \<Rightarrow> bool \<Rightarrow> Lab \<Rightarrow> Lab" where
  "reflectionSettle captured outcome now accepted w =
     (case outcome of
        FetchThrows \<Rightarrow> w\<lparr>isAIThinking := False\<rparr>
      | FetchReturns result \<Rightarrow>
          (case result_feedback result of
             None \<Rightarrow> w\<lparr>isAIThinking := False\<rparr>
           | Some fb \<Rightarrow>
               if result_success result then
                 (let aiMessage = \<lparr> role = AI, content = joinWith blankLine fb,
                                    timestamp = now, stage = Some InitialReflection \<rparr>;
                      updated = captured\<lparr>conversationHistory := [aiMessage],
                                         currentStage := ChoosingDirections\<rparr>;
                      w1 = saveLabData accepted updated (w\<lparr>labData := updated\<rparr>)
                  in w1\<lparr>expandedStages := {InitialReflection, ChoosingDirections},
                        isAIThinking := False\<rparr>)
               else w\<lparr>isAIThinking := False\<rparr>))"

definition generateInitialReflection :: "FetchOutcome \<Rightarrow> nat \<Rightarrow> bool \<Rightarrow> Lab \<Rightarrow> Lab" where
  "generateInitialReflection outcome now accepted w =
     (case truthyProjectId w of
        None \<Rightarrow> w
      | Some pid \<Rightarrow>
          (case project w of
             None \<Rightarrow> w
           | Some p \<Rightarrow> reflectionSettle (labData w) outcome now accepted (reflectionBegin pid p w)))"

text \<open>The condition of the auto-start effect.\<close>

definition autoStartCondition :: "Lab \<Rightarrow> bool" where
  "autoStartCondition w =
     (\<not> hasAutoStarted w \<and> hasInitialized w
      \<and> length (conversationHistory (labData w)) = 0
      \<and> (case project w of None \<Rightarrow> False | Some p \<Rightarrow> solutionWheel p \<noteq> None)
      \<and> \<not> isAIThinking w
      \<and> truthyProjectId w \<noteq> None)"

text \<open>One evaluation of the auto-start effect, the call it starts run to its end.\<close>

definition autoStartEffect :: "FetchOutcome \<Rightarrow> nat \<Rightarrow> bool \<Rightarrow> Lab \<Rightarrow> Lab" where
  "autoStartEffect outcome now accepted w =
     (if autoStartCondition w
      then generateInitialReflection outcome now accepted (w\<lparr>hasAutoStarted := True\<rparr>)
      else w)"

text \<open>
  One evaluation of the auto-start effect up to the \<open>await\<close> of the call it starts: what
  the component looks like while the request is in flight.
\<close>

definition autoStartEffectBegin :: "Lab \<Rightarrow> Lab" where
  "autoStartEffectBegin w =
     (if autoStartCondition w
      then (case truthyProjectId w of
              None \<Rightarrow> w\<lparr>hasAutoStarted := True\<rparr>
            | Some pid \<Rightarrow>
                (case project w of
                   None \<Rightarrow> w\<lparr>hasAutoStarted := True\<rparr>
                 | Some p \<Rightarrow> reflectionBegin pid p (w\<lparr>hasAutoStarted := True\<rparr>)))
      else w)"

text \<open>The snapshot callback of the project subscription.\<close>

definition onProjectSnapshot :: "Project option \<Rightarrow> Lab \<Rightarrow> Lab" where
  "onProjectSnapshot updatedProject w =
     (let w1 = w\<lparr>project := updatedProject\<rparr>
      in if hasInitialized w then w1
         else (case updatedProject of
                 None \<Rightarrow> w1
               | Some p \<Rightarrow>
                   (case coFounderLab p of
                      None \<Rightarrow> w1\<lparr>hasInitialized := True\<rparr>
                    | Some existing \<Rightarrow>
                        w1\<lparr>labData := existing,
                            expandedStages := {InitialReflection, currentStage existing},
                            hasInitialized := True\<rparr>)))"

definition selectionRequest :: "string \<Rightarrow> CoFounderLabData \<Rightarrow> AIRequest" where
  "selectionRequest pid d =
     \<lparr> projectId = pid, stepId = ''cofounder-lab'', zoneId = None, action = ''generate'',
       data = Some \<lparr> reqAnswers = None, reqProblemStatement = None,
                     reqStage = Some Selection, reqSolutionWheel = None,
                     reqConversationHistory = Some (conversationHistory d),
                     reqIdeaBank = Some (bankOf d) \<rparr> \<rparr>"

definition generateSelectionAI :: "FetchOutcome \<Rightarrow> nat \<Rightarrow> bool \<Rightarrow> CoFounderLabData \<Rightarrow> Lab \<Rightarrow> Lab" where
  "generateSelectionAI outcome now accepted d w =
     (case truthyProjectId w of
        None \<Rightarrow> w
      | Some pid \<Rightarrow>
          (let w1 = w\<lparr>isAIThinking := True, aiCalls := aiCalls w @ [selectionRequest pid d]\<rparr>
           in case outcome of
                FetchThrows \<Rightarrow> w1\<lparr>isAIThinking := False\<rparr>
              | FetchReturns result \<Rightarrow>
                  (case result_feedback result of
                     None \<Rightarrow> w1\<lparr>isAIThinking := False\<rparr>
                   | Some fb \<Rightarrow>
                       if result_success result then
                         (let aiMessage = \<lparr> role = AI, content = joinWith blankLine fb,
                                            timestamp = now, stage = Some Selection \<rparr>;
                              next = d\<lparr>conversationHistory := conversationHistory d @ [aiMessage]\<rparr>;
                              w2 = saveLabData accepted next (w1\<lparr>labData := next\<rparr>)
                          in w2\<lparr>isAIThinking := False\<rparr>)
                       else w1\<lparr>isAIThinking := False\<rparr>)))"

text \<open>
  The Continue button of the Variants stage. \<open>accepted1\<close> is the outcome of the write of
  the stage change, \<open>accepted2\<close> that of the write after the reasoning call.
\<close>

definition proceedToSelection :: "FetchOutcome \<Rightarrow> nat \<Rightarrow> bool \<Rightarrow> bool \<Rightarrow> Lab \<Rightarrow> Lab" where
  "proceedToSelection outcome now accepted1 accepted2 w =
     (case truthyProjectId w of
        None \<Rightarrow> w
      | Some pid \<Rightarrow>
          if length (bankOf (labData w)) < 3 then w
          else
            (let updated = (labData w)\<lparr>currentStage := Selection\<rparr>;
                 w1 = saveLabData accepted1 updated (w\<lparr>labData := updated\<rparr>);
                 w2 = w1\<lparr>expandedStages := {InitialReflection, Selection}\<rparr>
             in generateSelectionAI outcome now accepted2 updated w2))"

section \<open>Co-Founder Lab: lock and reset\<close>

definition emptyDecision :: Decision where
  "emptyDecision = \<lparr> possible = [], planetImpact = [], impact = [], originality = [] \<rparr>"

text \<open>
  A handler whose promise may reject: \<open>Rejected e w\<close> is the rejection with error \<open>e\<close>,
  the component and the store left as \<open>w\<close> by the statements that ran before it.
\<close>

datatype HandlerResult = Settled Lab | Rejected error Lab

text \<open>
  The \<open>onLock\<close> handler given to \<open>VariantSelector\<close>. \<open>accepted1\<close> is the outcome of the
  write inside \<open>saveLabData\<close> (whose failure is caught there), \<open>accepted2\<close> that of the
  second \<open>updateProject\<close>, which nothing catches.
\<close>

definition onLock :: "bool \<Rightarrow> bool \<Rightarrow> string \<Rightarrow> Lab \<Rightarrow> HandlerResult" where
  "onLock accepted1 accepted2 choice w =
     (let proposed = \<lparr> title = ''Chosen Direction'', description = choice,
                       whoItsFor = [], howItWorks = [], whyItMatters = [] \<rparr>;
          next = (labData w)\<lparr>lockedVariant := Some choice, proposedSolution := Some proposed,
                             currentStage := Completed\<rparr>;
          w1 = saveLabData accepted1 next (w\<lparr>labData := next\<rparr>)
      in case truthyProjectId w1 of
           None \<Rightarrow> Settled (w1\<lparr>expandedStages := {Selection}\<rparr>)
         | Some pid \<Rightarrow>
             (case updateProject accepted2
                     \<lparr> setCoFounderLab = None, setCurrentStepId = Some ''decision-tree'',
                       setDecision = Some emptyDecision \<rparr>
                     (firestore w1) of
                Inr doc \<Rightarrow> Settled (w1\<lparr>firestore := doc, expandedStages := {Selection}\<rparr>)
              | Inl e \<Rightarrow> Rejected e w1))"

text \<open>\<open>handleReset\<close>; a failed write is caught and logged, after the local reset.\<close>

definition handleReset :: "bool \<Rightarrow> Lab \<Rightarrow> Lab" where
  "handleReset accepted w =
     (case truthyProjectId w of
        None \<Rightarrow> w
      | Some pid \<Rightarrow>
          (let w1 = w\<lparr>labData := EMPTY_LAB_DATA, selectedSolutionsState := [], inputValue := [],
                       expandedStages := {InitialReflection}, hasAutoStarted := False\<rparr>
           in case updateProject accepted
                     \<lparr> setCoFounderLab = Some None, setCurrentStepId = None, setDecision = None \<rparr>
                     (firestore w1) of
                Inr doc \<Rightarrow> w1\<lparr>firestore := doc, showResetWarning := False\<rparr>
              | Inl e \<Rightarrow> w1))"

section \<open>Response interpreter (src/lib/ai/assistants/ReviewAssistant.ts)\<close>

text \<open>
  A value as \<open>JSON.parse\<close> returns it. \<open>JSON.parse\<close> itself belongs to the platform
  and is a parameter \<open>jsonParse\<close> of the interpreter: \<open>None\<close> is the \<open>SyntaxError\<close>
  it throws.
\<close>

datatype Json =
    JNull
  | JBool bool
  | JNumber string
  | JString string
  | JArray "Json list"
  | JObject "(string \<times> Json) list"

text \<open>\<open>parsed.every((x) => typeof x === 'string')\<close>, returning the strings.\<close>

fun allStrings :: "Json list \<Rightarrow> string list option" where
  "allStrings [] = Some []"
| "allStrings (JString s # xs) =
     (case allStrings xs of None \<Rightarrow> None | Some ys \<Rightarrow> Some (s # ys))"
| "allStrings (x # xs) = None"

text \<open>
  The body of each \<open>try\<close> in \<open>tryExtractArray\<close>: the parsed value when it is an array
  of strings; a thrown parse and any other value both fall through.
\<close>

definition asStringArray :: "Json option \<Rightarrow> string list option" where
  "asStringArray parsed =
     (case parsed of
        Some (JArray xs) \<Rightarrow> allStrings xs
      | _ \<Rightarrow> None)"

definition fence :: string where
  "fence = [CHR 0x60, CHR 0x60, CHR 0x60]"

text \<open>
  \<open>text.replace(/^```(?:json)?\s*/i, '')\<close>: at the start of the text, three backticks,
  then \<open>json\<close> in any letter case when it is there, then all the whitespace that
  follows.
\<close>

definition stripLeadingFence :: "string \<Rightarrow> string" where
  "stripLeadingFence text =
     (if take 3 text = fence then
        (let rest = drop 3 text;
             afterTag = (if toLowerCase (take 4 rest) = ''json'' then drop 4 rest else rest)
         in dropWhile isSpace afterTag)
      else text)"

text \<open>
  \<open>text.replace(/\s*```$/i, '')\<close>: three backticks at the very end of the text,
  together with the whole run of whitespace before them (the leftmost match).
\<close>

definition stripTrailingFence :: "string \<Rightarrow> string" where
  "stripTrailingFence text =
     (if 3 \<le> length text \<and> drop (length text - 3) text = fence
      then trimEnd (take (length text - 3) text)
      else text)"

text \<open>\<open>indexOf\<close> and \<open>lastIndexOf\<close> of one character: \<open>-1\<close> when it is absent.\<close>

fun indexOf :: "char \<Rightarrow> string \<Rightarrow> int" where
  "indexOf c [] = - 1"
| "indexOf c (x # xs) =
     (if x = c then 0
      else (let i = indexOf c xs in if i = - 1 then - 1 else i + 1))"

definition lastIndexOf :: "char \<Rightarrow> string \<Rightarrow> int" where
  "lastIndexOf c s =
     (let i = indexOf c (rev s) in if i = - 1 then - 1 else int (length s) - 1 - i)"

text \<open>\<open>text.slice(start, stop)\<close> for indices that are not negative.\<close>

definition slice :: "string \<Rightarrow> int \<Rightarrow> int \<Rightarrow> string" where
  "slice s start stop = take (nat stop - nat start) (drop (nat start) s)"

definition tryExtractArray :: "(string \<Rightarrow> Json option) \<Rightarrow> string \<Rightarrow> string list option" where
  "tryExtractArray jsonParse text =
     (let stripFences = trim (stripTrailingFence (stripLeadingFence text))
      in case asStringArray (jsonParse stripFences) of
           Some items \<Rightarrow> Some items
         | None \<Rightarrow>
             (let start = indexOf (CHR ''['') text;
                  stop = lastIndexOf (CHR '']'') text
              in if start \<noteq> - 1 \<and> stop \<noteq> - 1 \<and> stop > start
                 then asStringArray (jsonParse (slice text start (stop + 1)))
                 else None))"

text \<open>
  The regular expression \<open>/([.!]\s+)([^.!]+\?\s*)$/s\<close>, matched as the engine does it:
  leftmost start, greedy quantifiers, backtracking.

  \<open>questionRest cs\<close>: after at least one character of \<open>[^.!]+\<close> has been consumed, can
  the rest \<open>cs\<close> finish the match? The class takes one more character first (greedy);
  failing that, the next character is the \<open>?\<close> and only whitespace follows to the end.
\<close>

fun questionRest :: "string \<Rightarrow> bool" where
  "questionRest [] = False"
| "questionRest (c # cs) =
     ((c \<noteq> CHR ''.'' \<and> c \<noteq> CHR ''!'' \<and> questionRest cs)
      \<or> (c = CHR ''?'' \<and> list_all isSpace cs))"

text \<open>The second group \<open>[^.!]+\?\s*\<close> followed by the end of the text.\<close>

fun questionTail :: "string \<Rightarrow> bool" where
  "questionTail [] = False"
| "questionTail (c # cs) = (c \<noteq> CHR ''.'' \<and> c \<noteq> CHR ''!'' \<and> questionRest cs)"

text \<open>
  \<open>\s+\<close> and what follows it: \<open>spaces acc s\<close> has consumed the whitespace \<open>acc\<close> and
  looks at \<open>s\<close>. It takes one more whitespace character, tries to go on (greedy), and
  otherwise lets the second group start here. The result is the whitespace consumed and
  the text of the second group.
\<close>

fun spaces :: "string \<Rightarrow> string \<Rightarrow> (string \<times> string) option" where
  "spaces acc [] = None"
| "spaces acc (c # cs) =
     (if isSpace c then
        (case spaces (acc @ [c]) cs of
           Some m \<Rightarrow> Some m
         | None \<Rightarrow> if questionTail cs then Some (acc @ [c], cs) else None)
      else None)"

text \<open>A match that starts at the head of the text: the two groups.\<close>

fun questionMatchHere :: "string \<Rightarrow> (string \<times> string) option" where
  "questionMatchHere [] = None"
| "questionMatchHere (c # cs) =
     (if c = CHR ''.'' \<or> c = CHR ''!'' then
        (case spaces [] cs of
           Some (ws, g2) \<Rightarrow> Some (c # ws, g2)
         | None \<Rightarrow> None)
      else None)"

text \<open>\<open>responseText.match(...)\<close>: the leftmost match, as its groups 1 and 2.\<close>

fun questionMatch :: "string \<Rightarrow> (string \<times> string) option" where
  "questionMatch [] = None"
| "questionMatch (c # cs) =
     (case questionMatchHere (c # cs) of
        Some m \<Rightarrow> Some m
      | None \<Rightarrow> questionMatch cs)"

text \<open>\<open>s.lastIndexOf(sub)\<close> for a string \<open>sub\<close>; \<open>i\<close> is the index of the head of \<open>s\<close>.\<close>

fun lastIndexOfFrom :: "string \<Rightarrow> string \<Rightarrow> nat \<Rightarrow> int" where
  "lastIndexOfFrom sub [] i = (if sub = [] then int i else - 1)"
| "lastIndexOfFrom sub (c # cs) i =
     (let later = lastIndexOfFrom sub cs (Suc i)
      in if later \<noteq> - 1 then later
         else if take (length sub) (c # cs) = sub then int i
         else - 1)"

definition lastIndexOfString :: "string \<Rightarrow> string \<Rightarrow> int" where
  "lastIndexOfString sub s = lastIndexOfFrom sub s 0"

record ParsedResponse =
  feedback :: "string list"
  followUpQuestion :: "string option"
  generatedItems :: "string list option"

definition parseResponse :: "(string \<Rightarrow> Json option) \<Rightarrow> string \<Rightarrow> ParsedResponse" where
  "parseResponse jsonParse responseText =
     (let trimmed = trim responseText
      in case tryExtractArray jsonParse trimmed of
           Some array \<Rightarrow>
             \<lparr> feedback = [], followUpQuestion = None, generatedItems = Some array \<rparr>
         | None \<Rightarrow>
             (case questionMatch responseText of
                Some (g1, g2) \<Rightarrow>
                  (let followUp = trim g2;
                       feedbackText =
                         trim (take (nat (lastIndexOfString g1 responseText + int (length g1)))
                                 responseText)
                   in \<lparr> feedback = (if feedbackText \<noteq> [] then [feedbackText] else [responseText]),
                        followUpQuestion = Some followUp,
                        generatedItems = None \<rparr>)
              | None \<Rightarrow>
                  \<lparr> feedback = (if responseText \<noteq> [] then [responseText] else [responseText]),
                    followUpQuestion = None,
                    generatedItems = None \<rparr>))"




subsection \<open>A parser for the examples\<close>

text \<open>
  \<open>jsonStringArray\<close> stands for \<open>JSON.parse\<close> in the closed examples. It reads the
  fragment of JSON they use: an array of string literals without escape sequences, with
  JSON whitespace (space, tab, line feed, carriage return) between the tokens, and it
  rejects every other text. On a text without a backslash the interpreter cannot tell
  it from \<open>JSON.parse\<close>, which there either throws or returns a value that is no
  array of strings.
\<close>

datatype Scan =
    BeforeOpen
  | AfterOpen
  | InString string
  | AfterString
  | AfterComma
  | AfterClose
  | Reject

definition jsonSpace :: "char \<Rightarrow> bool" where
  "jsonSpace c = (c = CHR '' '' \<or> c = CHR 0x09 \<or> c = CHR 0x0A \<or> c = CHR 0x0D)"

fun scanStep :: "Scan \<times> string list \<Rightarrow> char \<Rightarrow> Scan \<times> string list" where
  "scanStep (BeforeOpen, items) c =
     (if jsonSpace c then (BeforeOpen, items)
      else if c = CHR ''['' then (AfterOpen, items) else (Reject, items))"
| "scanStep (AfterOpen, items) c =
     (if jsonSpace c then (AfterOpen, items)
      else if c = CHR 0x22 then (InString [], items)
      else if c = CHR '']'' then (AfterClose, items) else (Reject, items))"
| "scanStep (InString cur, items) c =
     (if c = CHR 0x22 then (AfterString, items @ [cur])
      else if c = CHR 0x5C \<or> (of_char c :: nat) < 32 then (Reject, items)
      else (InString (cur @ [c]), items))"
| "scanStep (AfterString, items) c =
     (if jsonSpace c then (AfterString, items)
      else if c = CHR '','' then (AfterComma, items)
      else if c = CHR '']'' then (AfterClose, items) else (Reject, items))"
| "scanStep (AfterComma, items) c =
     (if jsonSpace c then (AfterComma, items)
      else if c = CHR 0x22 then (InString [], items) else (Reject, items))"
| "scanStep (AfterClose, items) c =
     (if jsonSpace c then (AfterClose, items) else (Reject, items))"
| "scanStep (Reject, items) c = (Reject, items)"

definition jsonStringArray :: "string \<Rightarrow> Json option" where
  "jsonStringArray text =
     (case foldl scanStep (BeforeOpen, []) text of
        (AfterClose, items) \<Rightarrow> Some (JArray (map JString items))
      | _ \<Rightarrow> None)"

text \<open>The texts of the examples.\<close>

definition numberedText :: string where
  "numberedText = ''1. foo'' @ [CHR 0x0A] @ ''2. bar'' @ [CHR 0x0A, CHR 0x0A] @ ''What do you think?''"


section \<open>Orchestrator (src/unnamed/part_012)\<close>

text \<open>
  \<open>currentZoneData\<close>: the zone id, the answers, and for the Co-Founder Lab the other
  keys of \<open>request.data\<close> that the spread copies in.
\<close>

record ZoneData =
  zoneDataId :: string
  zoneAnswers :: "string list"
  zoneSpread :: "RequestData option"

record AIContext =
  ctxProjectId :: string
  ctxChosenProblem :: "string option"
  ctxProblemExploration :: "ProblemExploration option"
  ctxProblemStatement :: "FourWs option"
  currentZoneData :: "ZoneData option"
  currentFieldData :: "(string \<times> string) option"

text \<open>
  What \<open>getDoc\<close> gives for the project: a rejected promise, a snapshot of a document
  that does not exist, or the data of the document.
\<close>

datatype 'a Snapshot = GetDocFails | Missing | Found 'a

datatype ContextError = GetDocError | ProjectNotFound

text \<open>Truthiness of an optional string: \<open>undefined\<close> and the empty string are falsy.\<close>

definition truthyString :: "string option \<Rightarrow> bool" where
  "truthyString s = (case s of None \<Rightarrow> False | Some x \<Rightarrow> x \<noteq> [])"

text \<open>The \<open>try\<close> block of \<open>buildContext\<close>; \<open>Inl\<close> is what it throws.\<close>

definition buildContextTry :: "Project Snapshot \<Rightarrow> AIRequest \<Rightarrow> ContextError + AIContext" where
  "buildContextTry projectSnap request =
     (case projectSnap of
        GetDocFails \<Rightarrow> Inl GetDocError
      | Missing \<Rightarrow> Inl ProjectNotFound
      | Found projectData \<Rightarrow>
          (let context =
                 \<lparr> ctxProjectId = projectId request,
                   ctxChosenProblem =
                     (if truthyString (chosenProblem projectData) then chosenProblem projectData else None),
                   ctxProblemExploration = problemExploration projectData,
                   ctxProblemStatement = problemStatement projectData,
                   currentZoneData = None,
                   currentFieldData = None \<rparr>;
               c1 = (case data request of
                       None \<Rightarrow> context
                     | Some d \<Rightarrow>
                         (case reqAnswers d of
                            None \<Rightarrow> context
                          | Some answers \<Rightarrow>
                              (case zoneId request of
                                 None \<Rightarrow> context
                               | Some z \<Rightarrow>
                                   if z \<noteq> [] then
                                     context\<lparr>currentZoneData :=
                                       Some \<lparr> zoneDataId = z, zoneAnswers = answers, zoneSpread = None \<rparr>\<rparr>
                                   else context)));
               c2 = (case data request of
                       None \<Rightarrow> c1
                     | Some d \<Rightarrow>
                         (case reqProblemStatement d of
                            None \<Rightarrow> c1
                          | Some ps \<Rightarrow>
                              if stepId request = ''four-ws''
                              then c1\<lparr>ctxProblemStatement := Some ps\<rparr> else c1));
               c3 = (case data request of
                       None \<Rightarrow> c2
                     | Some d \<Rightarrow>
                         if stepId request = ''cofounder-lab'' then
                           c2\<lparr>currentZoneData :=
                             Some \<lparr> zoneDataId = (if truthyString (zoneId request)
                                                   then (case zoneId request of Some z \<Rightarrow> z | None \<Rightarrow> [])
                                                   else ''cofounder-lab''),
                                    zoneAnswers = (case reqAnswers d of Some a \<Rightarrow> a | None \<Rightarrow> []),
                                    zoneSpread = Some d \<rparr>\<rparr>
                         else c2)
           in Inr c3))"

text \<open>The context that the \<open>catch\<close> block returns.\<close>

definition minimalContext :: "AIRequest \<Rightarrow> AIContext" where
  "minimalContext request =
     \<lparr> ctxProjectId = projectId request,
       ctxChosenProblem = None,
       ctxProblemExploration = None,
       ctxProblemStatement = None,
       currentZoneData = None,
       currentFieldData = None \<rparr>"

definition buildContext :: "Project Snapshot \<Rightarrow> AIRequest \<Rightarrow> AIContext" where
  "buildContext projectSnap request =
     (case buildContextTry projectSnap request of
        Inr context \<Rightarrow> context
      | Inl e \<Rightarrow> minimalContext request)"

record AIResponse = ParsedResponse +
  success :: bool
  error :: "string option"

text \<open>
  \<open>getPrompt\<close> (src/lib/ai/prompts/index.ts); the registry of templates is a
  parameter.
\<close>

definition getPrompt :: "(string \<Rightarrow> 'p option) \<Rightarrow> string \<Rightarrow> string option \<Rightarrow> 'p option" where
  "getPrompt registry step zone =
     registry (if truthyString zone
               then step @ '':'' @ (case zone of Some z \<Rightarrow> z | None \<Rightarrow> [])
               else step)"

definition failure :: "string \<Rightarrow> AIResponse" where
  "failure message =
     \<lparr> feedback = [], followUpQuestion = None, generatedItems = None,
       success = False, error = Some message \<rparr>"

text \<open>
  \<open>AIOrchestrator.process\<close>. The assistant, which calls the reasoning service and
  catches its own errors, is the parameter \<open>reviewAssistant\<close>.
\<close>

definition process ::
  "(string \<Rightarrow> 'p option) \<Rightarrow> (AIRequest \<Rightarrow> AIContext \<Rightarrow> 'p \<Rightarrow> AIResponse)
     \<Rightarrow> Project Snapshot \<Rightarrow> AIRequest \<Rightarrow> AIResponse" where
  "process registry reviewAssistant projectSnap request =
     (let context = buildContext projectSnap request
      in case getPrompt registry (stepId request) (zoneId request) of
           None \<Rightarrow>
             failure (''No prompt template found for step: '' @ stepId request @ '', zone: ''
                      @ (case zoneId request of None \<Rightarrow> ''undefined'' | Some z \<Rightarrow> z))
         | Some promptTemplate \<Rightarrow>
             if action request = ''review'' \<or> action request = ''generate''
             then reviewAssistant request context promptTemplate
             else failure (''Unknown action: '' @ action request))"

text \<open>A review request, a registry with one template and an assistant for the examples.\<close>

definition reviewRequest :: AIRequest where
  "reviewRequest =
     \<lparr> projectId = ''p1'', stepId = ''explore'', zoneId = Some ''thinkBig'',
       action = ''review'', data = None \<rparr>"

definition oneTemplate :: "string \<Rightarrow> string option" where
  "oneTemplate key = (if key = ''explore:thinkBig'' then Some ''systems-thinking'' else None)"

definition echoAssistant :: "AIRequest \<Rightarrow> AIContext \<Rightarrow> string \<Rightarrow> AIResponse" where
  "echoAssistant request context promptTemplate =
     \<lparr> feedback = [promptTemplate,
                    (case ctxChosenProblem context of None \<Rightarrow> ''no problem chosen'' | Some p \<Rightarrow> p)],
       followUpQuestion = None, generatedItems = None, success = True, error = None \<rparr>"

section \<open>Concrete sessions\<close>

text \<open>The test \<open>result.success && result.feedback\<close> on what the request settled with.\<close>

definition successful :: "FetchOutcome \<Rightarrow> bool" where
  "successful outcome =
     (case outcome of
        FetchThrows \<Rightarrow> False
      | FetchReturns result \<Rightarrow> result_success result \<and> result_feedback result \<noteq> None)"

definition okResult :: "string list \<Rightarrow> FetchOutcome" where
  "okResult fb =
     FetchReturns \<lparr> result_success = True, result_feedback = Some fb, result_generatedItems = None \<rparr>"

definition failedResult :: FetchOutcome where
  "failedResult =
     FetchReturns \<lparr> result_success = False, result_feedback = None, result_generatedItems = None \<rparr>"

text \<open>The mounted component after its first snapshot: at Reflect, nothing said yet.\<close>

definition reflectLab :: Lab where
  "reflectLab = onProjectSnapshot (Some (firestore mountedLab)) mountedLab"

text \<open>The Variants stage with two and with three liked variants.\<close>

definition twoBankLab :: Lab where
  "twoBankLab = runBankOps [(Like ''Solar Lamp'', True), (Like ''Wind Lamp'', True)] variantsLab"

definition fullBankLab :: Lab where
  "fullBankLab = runBankOps [(Like ''Hand Lamp'', True)] twoBankLab"

text \<open>The Selection stage reached from there, and the session after a lock.\<close>

definition selectionLab :: Lab where
  "selectionLab = proceedToSelection (okResult [''Compare the three.'']) 7 True True fullBankLab"

definition resultLab :: "HandlerResult \<Rightarrow> Lab" where
  "resultLab r = (case r of Settled w \<Rightarrow> w | Rejected e w \<Rightarrow> w)"

definition isRejected :: "HandlerResult \<Rightarrow> bool" where
  "isRejected r = (case r of Settled w \<Rightarrow> False | Rejected e w \<Rightarrow> True)"

definition lockedLab :: Lab where
  "lockedLab = resultLab (onLock True True ''Wind Lamp'' selectionLab)"

section \<open>Facts about the idea bank\<close>

lemma labData_saveLabData: "labData (saveLabData accepted d w) = labData w"
  by (simp add: saveLabData_def updateProject_def split: option.splits sum.splits)

lemma bankOf_ideaBank_update: "bankOf (d\<lparr>ideaBank := Some b\<rparr>) = b"
  by (simp add: bankOf_def)

lemma bankInv_likeVariant: "bankInv w \<Longrightarrow> bankInv (likeVariant accepted v w)"
  by (auto simp: bankInv_def likeVariant_def Let_def labData_saveLabData bankOf_def)

lemma bankInv_addOwnIdea: "bankInv w \<Longrightarrow> bankInv (addOwnIdea accepted (w\<lparr>inputValue := s\<rparr>))"
  by (auto simp: bankInv_def addOwnIdea_def Let_def labData_saveLabData bankOf_def)

lemma bankInv_removeIdea: "bankInv w \<Longrightarrow> bankInv (removeIdea accepted v w)"
proof -
  assume inv: "bankInv w"
  have "length (filter (\<lambda>x. x \<noteq> v) (bankOf (labData w))) \<le> length (bankOf (labData w))"
    by (rule length_filter_le)
  with inv have len: "length (filter (\<lambda>x. x \<noteq> v) (bankOf (labData w))) \<le> 3"
    unfolding bankInv_def by (elim conjE) (rule order_trans)
  from inv have dis: "distinct (filter (\<lambda>x. x \<noteq> v) (bankOf (labData w)))"
    by (simp add: bankInv_def)
  show ?thesis
    using len dis
    by (simp add: bankInv_def removeIdea_def Let_def labData_saveLabData bankOf_ideaBank_update)
qed

lemma bankInv_applyBankOp: "bankInv w \<Longrightarrow> bankInv (applyBankOp w op)"
proof (cases op)
  case (Pair b accepted)
  assume "bankInv w"
  then show ?thesis
    unfolding Pair
    by (cases b) (simp_all add: bankInv_likeVariant bankInv_addOwnIdea bankInv_removeIdea)
qed

lemma bankInv_runBankOps: "bankInv w \<Longrightarrow> bankInv (runBankOps ops w)"
  unfolding runBankOps_def
  by (induction ops arbitrary: w) (simp_all add: bankInv_applyBankOp)

section \<open>Facts about the handlers\<close>

lemma saveLabData_fields:
  "aiCalls (saveLabData a d w) = aiCalls w"
  "isAIThinking (saveLabData a d w) = isAIThinking w"
  "hasAutoStarted (saveLabData a d w) = hasAutoStarted w"
  "hasInitialized (saveLabData a d w) = hasInitialized w"
  "project (saveLabData a d w) = project w"
  "actualProjectId (saveLabData a d w) = actualProjectId w"
  "selectedSolutionsState (saveLabData a d w) = selectedSolutionsState w"
  by (simp_all add: saveLabData_def updateProject_def split: option.splits)

lemma truthyProjectId_saveLabData: "truthyProjectId (saveLabData a d w) = truthyProjectId w"
  by (simp add: truthyProjectId_def saveLabData_fields)

lemma firestore_saveLabData:
  "firestore (saveLabData a d w) =
     (if truthyProjectId w \<noteq> None \<and> a then (firestore w)\<lparr>coFounderLab := Some d\<rparr> else firestore w)"
  by (simp add: saveLabData_def updateProject_def applyPatch_def split: option.splits)

lemma truthyProjectId_update [simp]:
  "truthyProjectId (w\<lparr>labData := x\<rparr>) = truthyProjectId w"
  "truthyProjectId (w\<lparr>isAIThinking := b\<rparr>) = truthyProjectId w"
  "truthyProjectId (w\<lparr>aiCalls := c\<rparr>) = truthyProjectId w"
  "truthyProjectId (w\<lparr>hasAutoStarted := b\<rparr>) = truthyProjectId w"
  "truthyProjectId (w\<lparr>expandedStages := e\<rparr>) = truthyProjectId w"
  "truthyProjectId (w\<lparr>firestore := f\<rparr>) = truthyProjectId w"
  by (simp_all add: truthyProjectId_def)

lemma reflectionSettle_success:
  "result_success r \<Longrightarrow> result_feedback r = Some fb \<Longrightarrow>
   reflectionSettle captured (FetchReturns r) now a w =
     (saveLabData a
        (captured\<lparr>conversationHistory := [\<lparr> role = AI, content = joinWith blankLine fb, timestamp = now, stage = Some InitialReflection \<rparr>],
                  currentStage := ChoosingDirections\<rparr>)
        (w\<lparr>labData := captured\<lparr>conversationHistory := [\<lparr> role = AI, content = joinWith blankLine fb, timestamp = now, stage = Some InitialReflection \<rparr>],
                  currentStage := ChoosingDirections\<rparr>\<rparr>))
       \<lparr>expandedStages := {InitialReflection, ChoosingDirections}, isAIThinking := False\<rparr>"
  by (simp add: reflectionSettle_def Let_def)

lemma reflectionSettle_failure:
  "\<not> successful outcome \<Longrightarrow> reflectionSettle captured outcome now a w = w\<lparr>isAIThinking := False\<rparr>"
  by (simp add: reflectionSettle_def successful_def split: FetchOutcome.splits option.splits)

lemma hasAutoStarted_reflectionSettle:
  "hasAutoStarted (reflectionSettle captured outcome now a w) = hasAutoStarted w"
  by (simp add: reflectionSettle_def Let_def saveLabData_fields split: FetchOutcome.splits option.splits)

lemma hasAutoStarted_generateInitialReflection:
  "hasAutoStarted (generateInitialReflection outcome now a w) = hasAutoStarted w"
  by (simp add: generateInitialReflection_def hasAutoStarted_reflectionSettle reflectionBegin_def
      split: option.splits)

lemma autoStartEffect_idem:
  "autoStartEffect o2 n2 a2 (autoStartEffect o1 n1 a1 w) = autoStartEffect o1 n1 a1 w"
proof (cases "autoStartCondition w")
  case True
  have "hasAutoStarted (autoStartEffect o1 n1 a1 w)"
    using True by (simp add: autoStartEffect_def hasAutoStarted_generateInitialReflection)
  then have "\<not> autoStartCondition (autoStartEffect o1 n1 a1 w)"
    by (simp add: autoStartCondition_def)
  then show ?thesis
    by (simp add: autoStartEffect_def [of o2])
next
  case False
  then show ?thesis by (simp add: autoStartEffect_def)
qed

lemma generateInitialReflection_failure:
  "\<not> successful outcome \<Longrightarrow>
     labData (generateInitialReflection outcome now a w) = labData w
     \<and> firestore (generateInitialReflection outcome now a w) = firestore w"
  by (simp add: generateInitialReflection_def reflectionSettle_failure reflectionBegin_def
      split: option.splits)

lemma generateSelectionAI_fields:
  "truthyProjectId w = Some pid \<Longrightarrow>
     aiCalls (generateSelectionAI outcome now a d w) = aiCalls w @ [selectionRequest pid d]"
  "currentStage (labData (generateSelectionAI outcome now a d w)) =
     (if truthyProjectId w \<noteq> None \<and> successful outcome then currentStage d else currentStage (labData w))"
  by (simp_all add: generateSelectionAI_def Let_def saveLabData_fields labData_saveLabData successful_def
      split: option.splits FetchOutcome.splits)

lemma generateSelectionAI_failure:
  "\<not> successful outcome \<Longrightarrow>
     labData (generateSelectionAI outcome now a d w) = labData w
     \<and> firestore (generateSelectionAI outcome now a d w) = firestore w"
  by (auto simp: generateSelectionAI_def Let_def successful_def
      split: option.splits FetchOutcome.splits)

lemma proceedToSelection_unfold:
  "truthyProjectId w = Some pid \<Longrightarrow> 3 \<le> length (bankOf (labData w)) \<Longrightarrow>
   proceedToSelection outcome now a1 a2 w =
     generateSelectionAI outcome now a2 ((labData w)\<lparr>currentStage := Selection\<rparr>)
       ((saveLabData a1 ((labData w)\<lparr>currentStage := Selection\<rparr>)
           (w\<lparr>labData := (labData w)\<lparr>currentStage := Selection\<rparr>\<rparr>))
          \<lparr>expandedStages := {InitialReflection, Selection}\<rparr>)"
  by (simp add: proceedToSelection_def Let_def)

lemma proceedToSelection_rejects:
  "length (bankOf (labData w)) < 3 \<Longrightarrow> proceedToSelection outcome now a1 a2 w = w"
  by (simp add: proceedToSelection_def split: option.splits)

lemma autoStartCondition_ids:
  "autoStartCondition w \<Longrightarrow> \<exists>pid p. truthyProjectId w = Some pid \<and> project w = Some p"
  by (auto simp: autoStartCondition_def split: option.splits)

lemma handleReset_unfold:
  "truthyProjectId w = Some pid \<Longrightarrow>
   handleReset a w =
     (if a then
        w\<lparr>labData := EMPTY_LAB_DATA, selectedSolutionsState := [], inputValue := [],
          expandedStages := {InitialReflection}, hasAutoStarted := False,
          firestore := (firestore w)\<lparr>coFounderLab := None\<rparr>, showResetWarning := False\<rparr>
      else
        w\<lparr>labData := EMPTY_LAB_DATA, selectedSolutionsState := [], inputValue := [],
          expandedStages := {InitialReflection}, hasAutoStarted := False\<rparr>)"
  by (simp add: handleReset_def Let_def updateProject_def applyPatch_def)

lemma handleReset_fields:
  "actualProjectId (handleReset a w) = actualProjectId w"
  "hasInitialized (handleReset a w) = hasInitialized w"
  "project (handleReset a w) = project w"
  "isAIThinking (handleReset a w) = isAIThinking w"
  by (simp_all add: handleReset_def Let_def updateProject_def split: option.splits)

lemma autoStartEffect_success:
  assumes cond: "autoStartCondition w"
    and pid: "truthyProjectId w = Some pid"
    and prj: "project w = Some p"
    and ok: "result_success r"
    and fb: "result_feedback r = Some fb"
  shows "autoStartEffect (FetchReturns r) now a w =
           reflectionSettle (labData w) (FetchReturns r) now a
             (reflectionBegin pid p (w\<lparr>hasAutoStarted := True\<rparr>))"
    and "conversationHistory (labData (autoStartEffect (FetchReturns r) now a w))
           = [\<lparr> role = AI, content = joinWith blankLine fb, timestamp = now,
                stage = Some InitialReflection \<rparr>]"
    and "currentStage (labData (autoStartEffect (FetchReturns r) now a w)) = ChoosingDirections"
    and "aiCalls (autoStartEffect (FetchReturns r) now a w)
           = aiCalls w @ [reflectionRequest pid (solutionWheel p)]"
proof -
  show run: "autoStartEffect (FetchReturns r) now a w =
      reflectionSettle (labData w) (FetchReturns r) now a
        (reflectionBegin pid p (w\<lparr>hasAutoStarted := True\<rparr>))"
    using cond pid prj by (simp add: autoStartEffect_def generateInitialReflection_def)
  show "conversationHistory (labData (autoStartEffect (FetchReturns r) now a w))
           = [\<lparr> role = AI, content = joinWith blankLine fb, timestamp = now,
                stage = Some InitialReflection \<rparr>]"
    by (simp add: run reflectionSettle_success [OF ok fb] labData_saveLabData)
  show "currentStage (labData (autoStartEffect (FetchReturns r) now a w)) = ChoosingDirections"
    by (simp add: run reflectionSettle_success [OF ok fb] labData_saveLabData)
  show "aiCalls (autoStartEffect (FetchReturns r) now a w)
           = aiCalls w @ [reflectionRequest pid (solutionWheel p)]"
    by (simp add: run reflectionSettle_success [OF ok fb] saveLabData_fields reflectionBegin_def)
qed

section \<open>Facts about the interpreter\<close>























lemma parseResponse_at_most_one_statement:
  "length (feedback (parseResponse jsonParse responseText)) \<le> 1"
  by (simp add: parseResponse_def Let_def split: option.splits prod.splits)

section \<open>Claims\<close>

text \<open>
  C10. For every corpus, \<open>isUniqueResponse\<close> returns true for a text that is empty or
  only whitespace after trimming, whatever the corpus holds: the duplicate count is not
  consulted for such a text, so a corpus with the empty text several times changes
  nothing.
\<close>

theorem isUniqueResponse_empty:
  "trim response = [] \<Longrightarrow> isUniqueResponse response allResponses"
  by (simp add: isUniqueResponse_def toLowerCase_def)

theorem isUniqueResponse_empty_witness:
  "trim [CHR '' '', CHR '' ''] = [] \<and> isUniqueResponse [CHR '' '', CHR '' ''] [[], [CHR '' ''], [], [CHR '' '', CHR '' '']]"
proof -
  have h: "trim [CHR '' '', CHR '' ''] = []"
    by (simp add: trim_def trimStart_def trimEnd_def isSpace_def)
  show ?thesis
    using h isUniqueResponse_empty [OF h] by simp
qed

text \<open>
  C1, as stated: under every sequence of like, add and remove actions from an empty
  bank, the bank never holds two strings that are equal after trim and lower case. The
  code compares banked strings as they are: liking the variant \<open>Solar Lamp\<close> and then
  typing \<open>solar lamp\<close> (with a blank on either side) banks both.
\<close>

theorem ideaBank_normalized_dedup_counterexample:
  "bankOf (labData (runBankOps [(Like ''Solar Lamp'', True), (AddOwn '' solar lamp '', True)] variantsLab))
     = [''Solar Lamp'', ''solar lamp'']
   \<and> normalize ''Solar Lamp'' = normalize ''solar lamp''
   \<and> ''Solar Lamp'' \<noteq> ''solar lamp''"
  by code_simp

text \<open>
  C1, amended: under every sequence of like, add and remove actions from an empty bank,
  whatever the outcome of each write, the bank never exceeds 3 entries and never holds
  the same string twice (equality of the strings as stored; the add form trims its
  input first, the Like button stores the variant as it is).
\<close>

theorem ideaBank_bounded_distinct:
  "bankOf (labData w) = [] \<Longrightarrow>
     length (bankOf (labData (runBankOps ops w))) \<le> 3
     \<and> distinct (bankOf (labData (runBankOps ops w)))"
proof -
  assume "bankOf (labData w) = []"
  then have "bankInv w"
    by (simp add: bankInv_def)
  then have "bankInv (runBankOps ops w)"
    by (rule bankInv_runBankOps)
  then show ?thesis
    by (simp add: bankInv_def)
qed

theorem ideaBank_bounded_distinct_witness:
  "bankOf (labData variantsLab) = []
   \<and> length (bankOf (labData (runBankOps
        [(Like ''Solar Lamp'', True), (AddOwn ''my lamp'', False), (AddOwn ''my lamp'', True),
         (Like ''Wind Lamp'', True), (Like ''Hand Lamp'', True), (Remove ''my lamp'', True),
         (Like ''Hand Lamp'', True)] variantsLab))) \<le> 3
   \<and> distinct (bankOf (labData (runBankOps
        [(Like ''Solar Lamp'', True), (AddOwn ''my lamp'', False), (AddOwn ''my lamp'', True),
         (Like ''Wind Lamp'', True), (Like ''Hand Lamp'', True), (Remove ''my lamp'', True),
         (Like ''Hand Lamp'', True)] variantsLab)))"
proof -
  have h: "bankOf (labData variantsLab) = []"
    by code_simp
  show ?thesis
    using h ideaBank_bounded_distinct [OF h] by simp
qed

text \<open>
  C2, as stated: the stage of a transition backed by a reasoning call is advanced only
  after the call returns a successful response, also for Variants to Selection. The
  Continue handler sets the stage to Selection and writes it to the store before it
  issues the call: with three banked variants and a request that throws, the stage was
  Variants, the outcome is not a success, and the stage is Selection in the component
  and in the store.
\<close>

theorem selection_stage_before_reply_counterexample:
  "currentStage (labData fullBankLab) = Variants
   \<and> \<not> successful FetchThrows
   \<and> currentStage (labData (proceedToSelection FetchThrows 7 True True fullBankLab)) = Selection
   \<and> map_option currentStage (coFounderLab (firestore (proceedToSelection FetchThrows 7 True True fullBankLab)))
       = Some Selection"
  by code_simp

text \<open>
  C2, amended: the Reflect to Choose transition advances the stage only after the
  reasoning call returns a successful response; when the call throws or returns
  without success, the session data and the store are unchanged. The Variants to
  Selection transition, once its guard passes, sets the stage to Selection and writes
  it before the reasoning call is issued, so the stage is Selection whatever the
  outcome of the call; when the call fails, the session is the old one with the stage
  set to Selection (no comparison message is added).
\<close>

theorem gateway_stage_advance:
  "(\<not> successful outcome \<longrightarrow>
      labData (generateInitialReflection outcome now a w) = labData w
      \<and> firestore (generateInitialReflection outcome now a w) = firestore w)
   \<and> (truthyProjectId w \<noteq> None \<and> 3 \<le> length (bankOf (labData w)) \<longrightarrow>
        currentStage (labData (proceedToSelection outcome now a1 a2 w)) = Selection
        \<and> (\<not> successful outcome \<longrightarrow>
             labData (proceedToSelection outcome now a1 a2 w) = (labData w)\<lparr>currentStage := Selection\<rparr>
             \<and> firestore (proceedToSelection outcome now a1 a2 w) =
                 (if a1 then (firestore w)\<lparr>coFounderLab := Some ((labData w)\<lparr>currentStage := Selection\<rparr>)\<rparr>
                  else firestore w)))"
proof (intro conjI impI)
  assume "\<not> successful outcome"
  then show "labData (generateInitialReflection outcome now a w) = labData w"
    and "firestore (generateInitialReflection outcome now a w) = firestore w"
    by (simp_all add: generateInitialReflection_failure)
next
  assume h: "truthyProjectId w \<noteq> None \<and> 3 \<le> length (bankOf (labData w))"
  then obtain pid where pid: "truthyProjectId w = Some pid" by auto
  from h have len: "3 \<le> length (bankOf (labData w))" by simp
  show "currentStage (labData (proceedToSelection outcome now a1 a2 w)) = Selection"
    by (simp add: proceedToSelection_unfold [OF pid len] generateSelectionAI_fields
        labData_saveLabData truthyProjectId_saveLabData pid)
next
  assume h: "truthyProjectId w \<noteq> None \<and> 3 \<le> length (bankOf (labData w))"
    and f: "\<not> successful outcome"
  then obtain pid where pid: "truthyProjectId w = Some pid" by auto
  from h have len: "3 \<le> length (bankOf (labData w))" by simp
  show "labData (proceedToSelection outcome now a1 a2 w) = (labData w)\<lparr>currentStage := Selection\<rparr>"
    by (simp add: proceedToSelection_unfold [OF pid len] generateSelectionAI_failure [OF f]
        labData_saveLabData)
  show "firestore (proceedToSelection outcome now a1 a2 w) =
                 (if a1 then (firestore w)\<lparr>coFounderLab := Some ((labData w)\<lparr>currentStage := Selection\<rparr>)\<rparr>
                  else firestore w)"
    by (simp add: proceedToSelection_unfold [OF pid len] generateSelectionAI_failure [OF f]
        firestore_saveLabData pid)
qed

theorem gateway_stage_advance_witness:
  "\<not> successful failedResult
   \<and> truthyProjectId fullBankLab \<noteq> None \<and> 3 \<le> length (bankOf (labData fullBankLab))
   \<and> labData (generateInitialReflection failedResult 7 True reflectLab) = labData reflectLab
   \<and> firestore (generateInitialReflection failedResult 7 True reflectLab) = firestore reflectLab
   \<and> currentStage (labData (proceedToSelection failedResult 7 True False fullBankLab)) = Selection
   \<and> labData (proceedToSelection failedResult 7 True False fullBankLab)
       = (labData fullBankLab)\<lparr>currentStage := Selection\<rparr>"
proof -
  have h1: "\<not> successful failedResult"
    by code_simp
  have h2: "truthyProjectId fullBankLab \<noteq> None \<and> 3 \<le> length (bankOf (labData fullBankLab))"
    by code_simp
  show ?thesis
    using h1 h2
      gateway_stage_advance [of failedResult 7 True reflectLab True False]
      gateway_stage_advance [of failedResult 7 True fullBankLab True False]
    by simp
qed

text \<open>
  C3, as stated: in the Selection to Locked transition the locked artifact, the stage
  change and the seeding of the downstream decision state are one update that cannot
  partly fail. The handler issues two writes. When the first is accepted and the second
  is refused, the handler's promise rejects with the stored stage Completed and no
  decision state seeded; when the first is refused (and swallowed) and the second is
  accepted, the decision state is seeded while the stored session still has the old
  stage and no locked variant.
\<close>

theorem lock_not_atomic_counterexample:
  "isRejected (onLock True False ''Wind Lamp'' selectionLab)
   \<and> map_option currentStage (coFounderLab (firestore (resultLab (onLock True False ''Wind Lamp'' selectionLab))))
       = Some Completed
   \<and> decision (firestore (resultLab (onLock True False ''Wind Lamp'' selectionLab))) = None
   \<and> \<not> isRejected (onLock False True ''Wind Lamp'' selectionLab)
   \<and> decision (firestore (resultLab (onLock False True ''Wind Lamp'' selectionLab))) = Some emptyDecision
   \<and> map_option currentStage (coFounderLab (firestore (resultLab (onLock False True ''Wind Lamp'' selectionLab))))
       = Some Selection
   \<and> map_option lockedVariant (coFounderLab (firestore (resultLab (onLock False True ''Wind Lamp'' selectionLab))))
       = Some None"
  by code_simp

text \<open>
  C3, amended: the Selection to Locked transition sets the locked variant, the proposed
  solution and the stage Completed in the component in one state update, and then
  issues two separate writes: first the session data (a refused write is logged and
  swallowed), then the journey step together with the empty decision state (a refused
  write rejects the handler). Each write takes effect exactly when it is accepted,
  independently of the other; when both are accepted the store holds the locked
  session, the journey step and the seeded decision state.
\<close>

theorem onLock_two_writes:
  assumes pid: "truthyProjectId w = Some pid"
  shows "labData (resultLab (onLock a1 a2 choice w)) =
           (labData w)\<lparr>lockedVariant := Some choice,
                        proposedSolution := Some \<lparr> title = ''Chosen Direction'', description = choice,
                                                   whoItsFor = [], howItWorks = [], whyItMatters = [] \<rparr>,
                        currentStage := Completed\<rparr>
       \<and> coFounderLab (firestore (resultLab (onLock a1 a2 choice w))) =
           (if a1 then Some (labData (resultLab (onLock a1 a2 choice w)))
            else coFounderLab (firestore w))
       \<and> decision (firestore (resultLab (onLock a1 a2 choice w))) =
           (if a2 then Some emptyDecision else decision (firestore w))
       \<and> currentStepId (firestore (resultLab (onLock a1 a2 choice w))) =
           (if a2 then Some ''decision-tree'' else currentStepId (firestore w))
       \<and> isRejected (onLock a1 a2 choice w) = (\<not> a2)"
  using pid
  by (simp add: onLock_def Let_def resultLab_def isRejected_def truthyProjectId_saveLabData
      labData_saveLabData firestore_saveLabData updateProject_def applyPatch_def)

theorem onLock_two_writes_witness:
  "truthyProjectId selectionLab = Some ''p1''
   \<and> coFounderLab (firestore (resultLab (onLock True True ''Wind Lamp'' selectionLab)))
       = Some (labData (resultLab (onLock True True ''Wind Lamp'' selectionLab)))
   \<and> decision (firestore (resultLab (onLock True True ''Wind Lamp'' selectionLab))) = Some emptyDecision
   \<and> currentStepId (firestore (resultLab (onLock True True ''Wind Lamp'' selectionLab))) = Some ''decision-tree''
   \<and> \<not> isRejected (onLock True True ''Wind Lamp'' selectionLab)"
proof -
  have h: "truthyProjectId selectionLab = Some ''p1''"
    by code_simp
  show ?thesis
    using h onLock_two_writes [OF h, of True True "''Wind Lamp''"] by simp
qed

text \<open>
  C6. The Variants to Selection transition is permitted only when the idea bank holds
  exactly its bound of 3 ideas. For a bank within its bound: when it holds 3 ideas the
  stage becomes Selection and exactly one request is posted, carrying the stage
  Selection and all banked ideas; when it holds any other number (2, say) the handler
  changes nothing, so the stage stays and no request is posted.
\<close>

theorem proceedToSelection_gate:
  assumes pid: "truthyProjectId w = Some pid"
    and bound: "length (bankOf (labData w)) \<le> 3"
  shows "(length (bankOf (labData w)) = 3 \<longrightarrow>
            currentStage (labData (proceedToSelection outcome now a1 a2 w)) = Selection
            \<and> aiCalls (proceedToSelection outcome now a1 a2 w)
                = aiCalls w @ [selectionRequest pid ((labData w)\<lparr>currentStage := Selection\<rparr>)]
            \<and> map_option reqIdeaBank (data (selectionRequest pid ((labData w)\<lparr>currentStage := Selection\<rparr>)))
                = Some (Some (bankOf (labData w))))
         \<and> (length (bankOf (labData w)) \<noteq> 3 \<longrightarrow> proceedToSelection outcome now a1 a2 w = w)"
proof (intro conjI impI)
  assume three: "length (bankOf (labData w)) = 3"
  then have len: "3 \<le> length (bankOf (labData w))" by simp
  show "currentStage (labData (proceedToSelection outcome now a1 a2 w)) = Selection"
    by (simp add: proceedToSelection_unfold [OF pid len] generateSelectionAI_fields
        labData_saveLabData truthyProjectId_saveLabData pid)
  show "aiCalls (proceedToSelection outcome now a1 a2 w)
                = aiCalls w @ [selectionRequest pid ((labData w)\<lparr>currentStage := Selection\<rparr>)]"
    by (simp add: proceedToSelection_unfold [OF pid len] generateSelectionAI_fields
        saveLabData_fields truthyProjectId_saveLabData pid)
  show "map_option reqIdeaBank (data (selectionRequest pid ((labData w)\<lparr>currentStage := Selection\<rparr>)))
                = Some (Some (bankOf (labData w)))"
    by (simp add: selectionRequest_def bankOf_def)
next
  assume "length (bankOf (labData w)) \<noteq> 3"
  with bound have "length (bankOf (labData w)) < 3" by simp
  then show "proceedToSelection outcome now a1 a2 w = w"
    by (rule proceedToSelection_rejects)
qed

theorem proceedToSelection_gate_witness:
  "truthyProjectId twoBankLab = Some ''p1'' \<and> length (bankOf (labData twoBankLab)) \<le> 3
   \<and> length (bankOf (labData twoBankLab)) \<noteq> 3
   \<and> proceedToSelection (okResult [''Compare the three.'']) 7 True True twoBankLab = twoBankLab
   \<and> truthyProjectId fullBankLab = Some ''p1'' \<and> length (bankOf (labData fullBankLab)) \<le> 3
   \<and> length (bankOf (labData fullBankLab)) = 3
   \<and> currentStage (labData (proceedToSelection (okResult [''Compare the three.'']) 7 True True fullBankLab))
       = Selection
   \<and> aiCalls (proceedToSelection (okResult [''Compare the three.'']) 7 True True fullBankLab)
       = aiCalls fullBankLab @ [selectionRequest ''p1'' ((labData fullBankLab)\<lparr>currentStage := Selection\<rparr>)]"
proof -
  have p2: "truthyProjectId twoBankLab = Some ''p1''"
    by code_simp
  have b2: "length (bankOf (labData twoBankLab)) \<le> 3"
    by code_simp
  have n2: "length (bankOf (labData twoBankLab)) \<noteq> 3"
    by code_simp
  have p3: "truthyProjectId fullBankLab = Some ''p1''"
    by code_simp
  have b3: "length (bankOf (labData fullBankLab)) \<le> 3"
    by code_simp
  have e3: "length (bankOf (labData fullBankLab)) = 3"
    by code_simp
  show ?thesis
    using p2 b2 n2 p3 b3 e3
      proceedToSelection_gate [OF p2 b2, of "okResult [''Compare the three.'']" 7 True True]
      proceedToSelection_gate [OF p3 b3, of "okResult [''Compare the three.'']" 7 True True]
    by simp
qed

text \<open>
  C7. Starting at the Reflect stage with an empty conversation history, with the
  trigger condition of the automatic reflection satisfied and a reasoning call that
  returns successfully, evaluating the trigger twice in a row leaves exactly one
  reflection entry in the history, moves the stage to Choose once and posts exactly
  one request: the second evaluation changes nothing. The same holds when the second
  evaluation happens while the request is still in flight.
\<close>

theorem autoStart_fires_once:
  assumes cond: "autoStartCondition w"
    and st: "currentStage (labData w) = InitialReflection"
    and pid: "truthyProjectId w = Some pid"
    and prj: "project w = Some p"
    and ok: "result_success r"
    and fb: "result_feedback r = Some fb"
  shows "autoStartEffect outcome2 now2 a2 (autoStartEffect (FetchReturns r) now1 a1 w)
           = autoStartEffect (FetchReturns r) now1 a1 w
       \<and> conversationHistory (labData (autoStartEffect (FetchReturns r) now1 a1 w))
           = [\<lparr> role = AI, content = joinWith blankLine fb, timestamp = now1,
                stage = Some InitialReflection \<rparr>]
       \<and> currentStage (labData (autoStartEffect (FetchReturns r) now1 a1 w)) = ChoosingDirections
       \<and> aiCalls (autoStartEffect (FetchReturns r) now1 a1 w)
           = aiCalls w @ [reflectionRequest pid (solutionWheel p)]
       \<and> autoStartEffectBegin (autoStartEffectBegin w) = autoStartEffectBegin w
       \<and> reflectionSettle (labData w) (FetchReturns r) now1 a1 (autoStartEffectBegin w)
           = autoStartEffect (FetchReturns r) now1 a1 w"
proof -
  note run = autoStartEffect_success [OF cond pid prj ok fb]
  have beg: "autoStartEffectBegin w = reflectionBegin pid p (w\<lparr>hasAutoStarted := True\<rparr>)"
    using cond pid prj by (simp add: autoStartEffectBegin_def)
  have "hasAutoStarted (autoStartEffectBegin w)"
    by (simp add: beg reflectionBegin_def)
  then have nb: "\<not> autoStartCondition (autoStartEffectBegin w)"
    by (simp add: autoStartCondition_def)
  have c1: "autoStartEffect outcome2 now2 a2 (autoStartEffect (FetchReturns r) now1 a1 w)
           = autoStartEffect (FetchReturns r) now1 a1 w"
    by (rule autoStartEffect_idem)
  have c5: "autoStartEffectBegin (autoStartEffectBegin w) = autoStartEffectBegin w"
    using nb by (simp add: autoStartEffectBegin_def [of "autoStartEffectBegin w"])
  have c6: "reflectionSettle (labData w) (FetchReturns r) now1 a1 (autoStartEffectBegin w)
           = autoStartEffect (FetchReturns r) now1 a1 w"
    by (simp add: run(1) beg)
  from c1 run(2) run(3) run(4) c5 c6 show ?thesis by blast
qed

theorem autoStart_fires_once_witness:
  "autoStartCondition reflectLab
   \<and> currentStage (labData reflectLab) = InitialReflection
   \<and> conversationHistory (labData reflectLab) = []
   \<and> autoStartEffect FetchThrows 9 True
        (autoStartEffect (FetchReturns \<lparr> result_success = True, result_feedback = Some [''Eight ideas.''],
                                          result_generatedItems = None \<rparr>) 8 True reflectLab)
       = autoStartEffect (FetchReturns \<lparr> result_success = True, result_feedback = Some [''Eight ideas.''],
                                          result_generatedItems = None \<rparr>) 8 True reflectLab
   \<and> conversationHistory (labData
        (autoStartEffect (FetchReturns \<lparr> result_success = True, result_feedback = Some [''Eight ideas.''],
                                          result_generatedItems = None \<rparr>) 8 True reflectLab))
       = [\<lparr> role = AI, content = ''Eight ideas.'', timestamp = 8, stage = Some InitialReflection \<rparr>]
   \<and> currentStage (labData
        (autoStartEffect (FetchReturns \<lparr> result_success = True, result_feedback = Some [''Eight ideas.''],
                                          result_generatedItems = None \<rparr>) 8 True reflectLab))
       = ChoosingDirections"
proof -
  have cond: "autoStartCondition reflectLab"
    by code_simp
  have st: "currentStage (labData reflectLab) = InitialReflection"
    by code_simp
  have hist: "conversationHistory (labData reflectLab) = []"
    by code_simp
  have pid: "truthyProjectId reflectLab = Some ''p1''"
    by code_simp
  have prj: "project reflectLab = Some (firestore mountedLab)"
    by code_simp
  have ok: "result_success \<lparr> result_success = True, result_feedback = Some [''Eight ideas.''],
                             result_generatedItems = None \<rparr>"
    by simp
  have fb: "result_feedback \<lparr> result_success = True, result_feedback = Some [''Eight ideas.''],
                              result_generatedItems = None \<rparr> = Some [''Eight ideas.'']"
    by simp
  show ?thesis
    using cond st hist autoStart_fires_once [OF cond st pid prj ok fb, of FetchThrows 9 True 8 True]
    by simp
qed

text \<open>
  C8. Reset, from any state of a component that has a project id (the locked session
  included), clears the conversation history, the idea bank, the selected candidates
  (in the session and in the selection panel) and the locked variant, returns the stage
  to Reflect and lowers the one-shot flag of the automatic reflection; the stored
  session is set to null when the write is accepted. After the reset the trigger
  condition holds as soon as the component is initialised, has a solution wheel and is
  not waiting for a reply, and a successful reflection then moves the stage to Choose
  with one entry in the history.
\<close>

theorem handleReset_clears_and_rearms:
  assumes pid: "truthyProjectId w = Some pid"
  shows "labData (handleReset a w) = EMPTY_LAB_DATA
       \<and> conversationHistory (labData (handleReset a w)) = []
       \<and> bankOf (labData (handleReset a w)) = []
       \<and> selectedSolutions (labData (handleReset a w)) = []
       \<and> selectedSolutionsState (handleReset a w) = []
       \<and> lockedVariant (labData (handleReset a w)) = None
       \<and> currentStage (labData (handleReset a w)) = InitialReflection
       \<and> hasAutoStarted (handleReset a w) = False
       \<and> coFounderLab (firestore (handleReset a w)) = (if a then None else coFounderLab (firestore w))
       \<and> autoStartCondition (handleReset a w)
           = (hasInitialized w \<and> (case project w of None \<Rightarrow> False | Some p \<Rightarrow> solutionWheel p \<noteq> None)
              \<and> \<not> isAIThinking w)
       \<and> (autoStartCondition (handleReset a w) \<and> successful outcome \<longrightarrow>
            currentStage (labData (autoStartEffect outcome now a' (handleReset a w))) = ChoosingDirections
            \<and> length (conversationHistory (labData (autoStartEffect outcome now a' (handleReset a w)))) = 1)"
proof -
  have lab: "labData (handleReset a w) = EMPTY_LAB_DATA"
    by (simp add: handleReset_unfold [OF pid])
  have cond: "autoStartCondition (handleReset a w)
           = (hasInitialized w \<and> (case project w of None \<Rightarrow> False | Some p \<Rightarrow> solutionWheel p \<noteq> None)
              \<and> \<not> isAIThinking w)"
  proof -
    have "truthyProjectId (handleReset a w) = truthyProjectId w"
      by (simp add: truthyProjectId_def handleReset_fields)
    moreover have "hasAutoStarted (handleReset a w) = False"
      by (simp add: handleReset_unfold [OF pid])
    moreover have "conversationHistory (labData (handleReset a w)) = []"
      by (simp add: lab EMPTY_LAB_DATA_def)
    ultimately show ?thesis
      using pid by (simp add: autoStartCondition_def handleReset_fields)
  qed
  have fire: "currentStage (labData (autoStartEffect outcome now a' (handleReset a w))) = ChoosingDirections
            \<and> length (conversationHistory (labData (autoStartEffect outcome now a' (handleReset a w)))) = 1"
    if c: "autoStartCondition (handleReset a w)" and s: "successful outcome"
  proof -
    from s obtain r fb where r: "outcome = FetchReturns r" "result_success r" "result_feedback r = Some fb"
      by (auto simp: successful_def split: FetchOutcome.splits)
    from c obtain q p where q: "truthyProjectId (handleReset a w) = Some q" "project (handleReset a w) = Some p"
      using autoStartCondition_ids by blast
    from autoStartEffect_success [OF c q r(2) r(3)] show ?thesis
      by (simp add: r(1))
  qed
  show ?thesis
    using lab cond fire
    by (simp add: EMPTY_LAB_DATA_def bankOf_def handleReset_unfold [OF pid])
qed

theorem handleReset_clears_and_rearms_witness:
  "truthyProjectId lockedLab = Some ''p1''
   \<and> currentStage (labData lockedLab) = Completed
   \<and> lockedVariant (labData lockedLab) = Some ''Wind Lamp''
   \<and> hasAutoStarted lockedLab
   \<and> labData (handleReset True lockedLab) = EMPTY_LAB_DATA
   \<and> bankOf (labData (handleReset True lockedLab)) = []
   \<and> lockedVariant (labData (handleReset True lockedLab)) = None
   \<and> currentStage (labData (handleReset True lockedLab)) = InitialReflection
   \<and> hasAutoStarted (handleReset True lockedLab) = False
   \<and> autoStartCondition (handleReset True lockedLab)
   \<and> successful (okResult [''Eight ideas.''])
   \<and> currentStage (labData (autoStartEffect (okResult [''Eight ideas.'']) 11 True (handleReset True lockedLab)))
       = ChoosingDirections"
proof -
  have pid: "truthyProjectId lockedLab = Some ''p1''"
    by code_simp
  have before: "currentStage (labData lockedLab) = Completed
     \<and> lockedVariant (labData lockedLab) = Some ''Wind Lamp'' \<and> hasAutoStarted lockedLab"
    by code_simp
  have pre: "hasInitialized lockedLab
     \<and> (case project lockedLab of None \<Rightarrow> False | Some p \<Rightarrow> solutionWheel p \<noteq> None)
     \<and> \<not> isAIThinking lockedLab"
    by code_simp
  have s: "successful (okResult [''Eight ideas.''])"
    by code_simp
  show ?thesis
    using pid before pre s
      handleReset_clears_and_rearms [OF pid, of True "okResult [''Eight ideas.'']" 11 True]
    by (simp add: EMPTY_LAB_DATA_def bankOf_def)
qed




text \<open>
  C4. The claim: in feedback mode the interpreter splits the text into statements at
  numbered or bulleted list markers and extracts at most one trailing follow-up
  question, so that the text \<open>1. foo\<close>, line feed, \<open>2. bar\<close>, two line feeds,
  \<open>What do you think?\<close> gives the feedback \<open>foo\<close>, \<open>bar\<close> and the question
  \<open>What do you think?\<close>. \<open>ReviewAssistant.parseResponse\<close> does not do this: at that
  text no array is extracted, the feedback is the single statement \<open>1. foo\<close>, line
  feed, \<open>2.\<close>, and the question is \<open>bar\<close>, two line feeds, \<open>What do you think?\<close>,
  because the question pattern matches from the full stop of the marker \<open>2.\<close>. The
  function's own comment asks for the last sentence ending with a question mark.
\<close>

theorem parseResponse_numbered_example:
  "tryExtractArray jsonStringArray (trim numberedText) = None
   \<and> parseResponse jsonStringArray numberedText
       = \<lparr> feedback = [''1. foo'' @ [CHR 0x0A] @ ''2.''],
           followUpQuestion = Some (''bar'' @ [CHR 0x0A, CHR 0x0A] @ ''What do you think?''),
           generatedItems = None \<rparr>
   \<and> feedback (parseResponse jsonStringArray numberedText) \<noteq> [''foo'', ''bar'']
   \<and> followUpQuestion (parseResponse jsonStringArray numberedText) \<noteq> Some ''What do you think?''"
  by code_simp

text \<open>
  C9, as stated: when the project cannot be found the context accumulator returns a
  minimal context that carries a \<open>degraded\<close> flag. The context type has no such field,
  and nothing in the returned value marks it: for a review request without payload,
  the context built for a missing project is equal to the one built for a project
  document that exists and is empty, so no reader of the context can tell them apart.
\<close>

theorem degraded_flag_counterexample:
  "buildContext Missing reviewRequest = buildContext (Found emptyProject) reviewRequest"
  by code_simp

text \<open>
  C9, amended: for every request whose project cannot be found (the document does not
  exist, or reading it fails), the context accumulator does not fail or throw to its
  caller: it returns the minimal context, which holds the project id of the request, a
  null chosen problem and nothing else (no flag marks it as degraded), and
  orchestration proceeds with that context rather than treating it as an error: the
  template lookup and the routing go on as for any request, and the assistant is
  called with the minimal context.
\<close>

theorem buildContext_missing_project:
  "buildContext Missing request = minimalContext request
   \<and> buildContext GetDocFails request = minimalContext request
   \<and> ctxProjectId (buildContext Missing request) = projectId request
   \<and> ctxChosenProblem (buildContext Missing request) = None
   \<and> (getPrompt registry (stepId request) (zoneId request) = Some promptTemplate
        \<and> (action request = ''review'' \<or> action request = ''generate'')
      \<longrightarrow> process registry reviewAssistant Missing request
            = reviewAssistant request (minimalContext request) promptTemplate)"
proof -
  have m: "buildContext Missing request = minimalContext request"
    by (simp add: buildContext_def buildContextTry_def)
  have g: "buildContext GetDocFails request = minimalContext request"
    by (simp add: buildContext_def buildContextTry_def)
  show ?thesis
    using m g
    by (auto simp: process_def minimalContext_def)
qed

theorem buildContext_missing_project_witness:
  "getPrompt oneTemplate (stepId reviewRequest) (zoneId reviewRequest) = Some ''systems-thinking''
   \<and> (action reviewRequest = ''review'' \<or> action reviewRequest = ''generate'')
   \<and> buildContext Missing reviewRequest = minimalContext reviewRequest
   \<and> process oneTemplate echoAssistant Missing reviewRequest
       = echoAssistant reviewRequest (minimalContext reviewRequest) ''systems-thinking''
   \<and> success (process oneTemplate echoAssistant Missing reviewRequest)"
proof -
  have h: "getPrompt oneTemplate (stepId reviewRequest) (zoneId reviewRequest) = Some ''systems-thinking''
     \<and> (action reviewRequest = ''review'' \<or> action reviewRequest = ''generate'')"
    by code_simp
  have s: "success (echoAssistant reviewRequest (minimalContext reviewRequest) ''systems-thinking'')"
    by (simp add: echoAssistant_def)
  show ?thesis
    using h s
      buildContext_missing_project [of reviewRequest oneTemplate "''systems-thinking''" echoAssistant]
    by simp
qed

end
